theory Spec2Isabelle
  imports Main "HOL-Library.Sublist"
begin

section \<open>Text\<close>

text \<open>
  Python text is modelled as \<^typ>\<open>string\<close>, a list of 8-bit characters holding the
  UTF-8 bytes of the text. The library functions that classify characters
  (\<^verbatim>\<open>str.strip\<close>, \<^verbatim>\<open>int\<close>, \<^verbatim>\<open>ipaddress.ip_address\<close>) are modelled on the ASCII
  range.
\<close>

definition nl :: char where
  "nl = CHR 0x0A"

definition sq :: char where
  "sq = CHR 0x27"

text \<open>\<^verbatim>\<open>s.split(c)\<close> for a one-character separator: never empty, one more part than separators.\<close>

fun split_on :: "char \<Rightarrow> string \<Rightarrow> string list" where
  "split_on c [] = [[]]"
| "split_on c (x # xs) =
     (if x = c then [] # split_on c xs
      else (case split_on c xs of [] \<Rightarrow> [[x]] | l # ls \<Rightarrow> (x # l) # ls))"

definition split_lines :: "string \<Rightarrow> string list" where
  "split_lines s = split_on nl s"

text \<open>Every line followed by a newline, as a file holding these lines.\<close>

definition unlines :: "string list \<Rightarrow> string" where
  "unlines ls = concat (map (\<lambda>l. l @ [nl]) ls)"

text \<open>\<^verbatim>\<open>str(n)\<close> for an integer: decimal digits, a minus sign when negative.\<close>

definition digit_char :: "nat \<Rightarrow> char" where
  "digit_char n = ''0123456789'' ! n"

function str_nat :: "nat \<Rightarrow> string" where
  "str_nat n = (if n < 10 then [digit_char n] else str_nat (n div 10) @ [digit_char (n mod 10)])"
  by pat_completeness auto
termination
  by (relation "measure id") auto

declare str_nat.simps [simp del]

definition str_int :: "int \<Rightarrow> string" where
  "str_int i = (if i < 0 then CHR ''-'' # str_nat (nat (- i)) else str_nat (nat i))"

section \<open>The setup script (utils.py, \<^verbatim>\<open>ServerManager._generate_setup_script\<close>)\<close>

text \<open>
  The f-string of the source, line by line. The certificate fills one line of the template
  (it may itself hold newlines); the ports are formatted as integers.
\<close>

definition script_head :: "string list" where
  "script_head =
    [''#!/bin/bash'',
     ''set -e'',
     '''',
     ''echo \"=== Updating system...\"'',
     ''sudo apt update -y'',
     '''',
     ''echo \"=== Installing dependencies...\"'',
     ''sudo apt install socat git curl -y'',
     '''',
     ''echo \"=== Installing Docker...\"'',
     ''curl -fsSL https://get.docker.com | sh'',
     '''',
     ''echo \"=== Cloning Marzban Node repository...\"'',
     ''git clone https://github.com/Gozargah/Marzban-node || (cd Marzban-node && git pull)'',
     ''cd Marzban-node'',
     '''',
     ''echo \"=== Creating certificate directory...\"'',
     ''sudo mkdir -p /var/lib/marzban-node'',
     '''',
     ''# Save certificate'']"

definition cert_opener :: string where
  "cert_opener = ''cat > /tmp/cert.pem << '' @ [sq] @ ''CERTEOF'' @ [sq]"

definition script_mid :: "string list" where
  "script_mid =
    [''CERTEOF'',
     '''',
     ''sudo mv /tmp/cert.pem /var/lib/marzban-node/ssl_client_cert.pem'',
     ''sudo chmod 644 /var/lib/marzban-node/ssl_client_cert.pem'',
     '''',
     ''# Create docker-compose.yml'',
     ''cat > docker-compose.yml << '' @ [sq] @ ''COMPOSEEOF'' @ [sq],
     ''version: '' @ [sq] @ ''3'' @ [sq],
     ''services:'',
     ''  marzban-node:'',
     ''    image: gozargah/marzban-node:latest'',
     ''    restart: always'',
     ''    network_mode: host'',
     ''    volumes:'',
     ''      - /var/lib/marzban-node:/var/lib/marzban-node'',
     ''    environment:'',
     ''      SSL_CLIENT_CERT_FILE: \"/var/lib/marzban-node/ssl_client_cert.pem\"'',
     ''      SERVICE_PROTOCOL: rest'']"

definition script_tail :: "string list" where
  "script_tail =
    [''COMPOSEEOF'',
     '''',
     ''echo \"=== Starting Marzban Node with Docker Compose...\"'',
     ''sudo docker compose up -d'',
     '''']"

definition port_lines :: "int \<Rightarrow> int \<Rightarrow> string list" where
  "port_lines service_port api_port =
     [''      SERVICE_PORT: '' @ str_int service_port,
      ''      XRAY_API_PORT: '' @ str_int api_port]"

definition final_line :: "int \<Rightarrow> string" where
  "final_line service_port =
     ''echo \"[SUCCESS] Node setup completed! Node should be available on port ''
       @ str_int service_port @ ''\"''"

definition generate_setup_script :: "string \<Rightarrow> int \<Rightarrow> int \<Rightarrow> string" where
  "generate_setup_script certificate service_port api_port =
     unlines
       (script_head @ [cert_opener, certificate] @ script_mid
        @ port_lines service_port api_port @ script_tail @ [final_line service_port])"

text \<open>
  The command that \<^verbatim>\<open>setup_marzban_node\<close> runs to write the script on the server. It is
  run inside \<^verbatim>\<open>with self.connection.cd("/tmp")\<close>, which prefixes the command.
\<close>

definition in_tmp :: "string \<Rightarrow> string" where
  "in_tmp cmd = ''cd /tmp && '' @ cmd"

definition upload_opener :: string where
  "upload_opener = ''cat > setup_node.sh << '' @ [sq] @ ''SCRIPTEOF'' @ [sq]"

definition upload_command :: "string \<Rightarrow> string" where
  "upload_command script_content = upload_opener @ [nl] @ script_content @ [nl] @ ''SCRIPTEOF''"

subsection \<open>What the shell does with a here-document\<close>

text \<open>
  A here-document with a quoted delimiter: the body is the lines after the line of the
  command, up to the first line that is the delimiter and nothing else; no expansion takes
  place in it. The command receives the body lines, each with its newline. Without a
  closing line the body runs to the end of the input.
\<close>

definition heredoc_lines :: "string \<Rightarrow> string \<Rightarrow> string list \<Rightarrow> string list option" where
  "heredoc_lines opener delim ls =
     (case dropWhile (\<lambda>l. l \<noteq> opener) ls of
        [] \<Rightarrow> None
      | _ # rest \<Rightarrow> Some (takeWhile (\<lambda>l. l \<noteq> delim) rest))"

definition heredoc_file :: "string \<Rightarrow> string \<Rightarrow> string \<Rightarrow> string option" where
  "heredoc_file opener delim input =
     map_option unlines (heredoc_lines opener delim (split_lines input))"

text \<open>The file \<^verbatim>\<open>/tmp/setup_node.sh\<close> that the upload command leaves on the server.\<close>

definition remote_script_file :: "string \<Rightarrow> string option" where
  "remote_script_file script_content =
     heredoc_file (in_tmp upload_opener) ''SCRIPTEOF'' (in_tmp (upload_command script_content))"

text \<open>The file \<^verbatim>\<open>/tmp/cert.pem\<close> that running a script leaves on the server.\<close>

definition remote_cert_file :: "string \<Rightarrow> string option" where
  "remote_cert_file script = heredoc_file cert_opener ''CERTEOF'' script"

text \<open>
  The certificate file on the server after the upload command and then the uploaded
  script have run.
\<close>

definition installed_certificate :: "string \<Rightarrow> int \<Rightarrow> int \<Rightarrow> string option" where
  "installed_certificate certificate service_port api_port =
     Option.bind (remote_script_file (generate_setup_script certificate service_port api_port))
       remote_cert_file"


text \<open>A certificate text one of whose lines is the inner delimiter.\<close>

definition cert_with_delimiter :: string where
  "cert_with_delimiter = ''A'' @ [nl] @ ''CERTEOF'' @ [nl] @ ''B''"


section \<open>The node provisioner (utils.py, \<^verbatim>\<open>ServerManager\<close>)\<close>

text \<open>
  Exceptions are values: the class, as far as the handlers of the source tell classes
  apart, and the text \<^verbatim>\<open>str(e)\<close>.
\<close>

datatype exn_kind = ValueError | KeyError | TypeError | OtherError

type_synonym exn = "exn_kind \<times> string"

text \<open>
  How a command ended on the server: the fields of the result that the source reads, and
  \<open>exit_report\<close>, the rest of the text of the exception that reports a failed command (the
  command, its exit code and the ends of its output).
\<close>

record run_result =
  failed :: bool
  stderr :: string
  exit_report :: string

text \<open>
  The world outside the program, with state \<open>'w\<close>: opening the SSH session (an exception or
  success), executing one command in the open session (an exception of the transport, or how
  the command ended), reading an environment variable, writing the temporary file (an
  exception or its path) and removing it.
\<close>

record 'w remote_env =
  ssh_open :: "string \<Rightarrow> string \<Rightarrow> 'w \<Rightarrow> exn option \<times> 'w"
  ssh_exec :: "string \<Rightarrow> 'w \<Rightarrow> (exn + run_result) \<times> 'w"
  getenv :: "string \<Rightarrow> 'w \<Rightarrow> string option"
  tmp_write :: "string \<Rightarrow> 'w \<Rightarrow> (exn + string) \<times> 'w"
  unlink :: "string \<Rightarrow> 'w \<Rightarrow> exn option \<times> 'w"

text \<open>
  A \<^verbatim>\<open>Connection\<close> object is created unconnected; its first \<^verbatim>\<open>run\<close> opens the
  session, \<^verbatim>\<open>close\<close> ends it.
\<close>

record connection =
  is_connected :: bool

record server_manager =
  sm_host :: string
  sm_password :: string
  sm_connection :: "connection option"

definition ServerManager_init :: "string \<Rightarrow> string \<Rightarrow> server_manager" where
  "ServerManager_init h p = \<lparr>sm_host = h, sm_password = p, sm_connection = None\<rparr>"

text \<open>
  \<^verbatim>\<open>Connection.run(cmd, hide=True)\<close>: every call of the source leaves \<^verbatim>\<open>warn\<close> at its
  default, so a command that ends with a non-zero exit status is not returned as a failed
  result: it is raised as \<^verbatim>\<open>UnexpectedExit\<close>.
\<close>

definition unexpected_exit :: "run_result \<Rightarrow> exn" where
  "unexpected_exit r = (OtherError, ''Encountered a bad command exit code!'' @ exit_report r)"

definition raise_on_failure :: "exn + run_result \<Rightarrow> exn + run_result" where
  "raise_on_failure out =
     (case out of
        Inl e \<Rightarrow> Inl e
      | Inr r \<Rightarrow> if failed r then Inl (unexpected_exit r) else Inr r)"

definition conn_run ::
  "'w remote_env \<Rightarrow> string \<Rightarrow> server_manager \<times> 'w \<Rightarrow> (exn + run_result) \<times> server_manager \<times> 'w" where
  "conn_run E cmd sw =
     (case sw of (self, w) \<Rightarrow>
        (case sm_connection self of
           None \<Rightarrow> (Inl (OtherError, ''NoneType object has no attribute run''), self, w)
         | Some c \<Rightarrow>
             if is_connected c then
               (case ssh_exec E cmd w of (r, w') \<Rightarrow> (raise_on_failure r, self, w'))
             else
               (case ssh_open E (sm_host self) (sm_password self) w of
                  (Some e, w') \<Rightarrow> (Inl e, self, w')
                | (None, w') \<Rightarrow>
                    (case ssh_exec E cmd w' of
                       (r, w'') \<Rightarrow>
                         (raise_on_failure r,
                          self\<lparr>sm_connection := Some (c\<lparr>is_connected := True\<rparr>)\<rparr>, w'')))))"

definition conn_close :: "server_manager \<Rightarrow> server_manager" where
  "conn_close self =
     self\<lparr>sm_connection := map_option (\<lambda>c. c\<lparr>is_connected := False\<rparr>) (sm_connection self)\<rparr>"

definition session_open :: "server_manager \<Rightarrow> bool" where
  "session_open self = (case sm_connection self of None \<Rightarrow> False | Some c \<Rightarrow> is_connected c)"

definition connect :: "'w remote_env \<Rightarrow> server_manager \<times> 'w \<Rightarrow> bool \<times> server_manager \<times> 'w" where
  "connect E sw =
     (case sw of (self, w) \<Rightarrow>
        (case conn_run E (''echo '' @ [sq] @ ''Connection test'' @ [sq])
                (self\<lparr>sm_connection := Some \<lparr>is_connected = False\<rparr>\<rparr>, w) of
           (Inl e, self', w') \<Rightarrow> (False, self', w')
         | (Inr r, self', w') \<Rightarrow> (\<not> failed r, self', w')))"

text \<open>The dictionaries that \<^verbatim>\<open>setup_marzban_node\<close> returns.\<close>

datatype pyval = PBool bool | PStr string | PInt int

type_synonym pydict = "(string \<times> pyval) list"

definition failure :: "string \<Rightarrow> pydict" where
  "failure msg = [(''success'', PBool False), (''error'', PStr msg)]"

definition success :: "string \<Rightarrow> int \<Rightarrow> int \<Rightarrow> pydict" where
  "success h service_port api_port =
     [(''success'', PBool True),
      (''message'', PStr (''Node setup completed successfully! Available on port ''
                          @ str_int service_port)),
      (''host'', PStr h),
      (''service_port'', PInt service_port),
      (''api_port'', PInt api_port)]"

text \<open>The four remote commands, inside \<^verbatim>\<open>with self.connection.cd("/tmp")\<close>.\<close>

definition run_steps ::
  "'w remote_env \<Rightarrow> string \<Rightarrow> int \<Rightarrow> int \<Rightarrow> server_manager \<times> 'w
     \<Rightarrow> (exn + pydict) \<times> server_manager \<times> 'w" where
  "run_steps E script_content service_port api_port sw =
     (case conn_run E (in_tmp (upload_command script_content)) sw of
        (Inl e, sw1) \<Rightarrow> (Inl e, sw1)
      | (Inr r1, sw1) \<Rightarrow>
          if failed r1 then (Inr (failure (''Failed to create script: '' @ stderr r1)), sw1)
          else
            (case conn_run E (in_tmp ''sudo chmod 755 setup_node.sh'') sw1 of
               (Inl e, sw2) \<Rightarrow> (Inl e, sw2)
             | (Inr r2, sw2) \<Rightarrow>
                 if failed r2 then (Inr (failure (''Failed to set permissions: '' @ stderr r2)), sw2)
                 else
                   (case conn_run E (in_tmp ''sudo bash ./setup_node.sh'') sw2 of
                      (Inl e, sw3) \<Rightarrow> (Inl e, sw3)
                    | (Inr r3, sw3) \<Rightarrow>
                        if failed r3 then (Inr (failure (''Setup failed: '' @ stderr r3)), sw3)
                        else
                          (case conn_run E (in_tmp ''sudo rm -f setup_node.sh'') sw3 of
                             (Inl e, sw4) \<Rightarrow> (Inl e, sw4)
                           | (Inr r4, sw4) \<Rightarrow>
                               (Inr (success (sm_host (fst sw4)) service_port api_port), sw4)))))"

text \<open>
  The body of the outer \<^verbatim>\<open>try\<close>: the certificate check, the temporary file, the inner
  \<^verbatim>\<open>try\<close> with the remote steps and its \<^verbatim>\<open>finally\<close> that removes the temporary file
  (an exception raised there replaces the pending result).
\<close>

definition setup_body ::
  "'w remote_env \<Rightarrow> int \<Rightarrow> int \<Rightarrow> server_manager \<times> 'w \<Rightarrow> (exn + pydict) \<times> server_manager \<times> 'w" where
  "setup_body E service_port api_port sw =
     (case sw of (self, w) \<Rightarrow>
        (case getenv E ''MARZBAN_NODE_CERT'' w of
           None \<Rightarrow> (Inr (failure ''Certificate not found in environment''), self, w)
         | Some certificate \<Rightarrow>
             if certificate = [] then
               (Inr (failure ''Certificate not found in environment''), self, w)
             else
               (case tmp_write E (generate_setup_script certificate service_port api_port) w of
                  (Inl e, w1) \<Rightarrow> (Inl e, self, w1)
                | (Inr temp_file_path, w1) \<Rightarrow>
                    (case run_steps E (generate_setup_script certificate service_port api_port)
                            service_port api_port (self, w1) of
                       (res, self2, w2) \<Rightarrow>
                         (case unlink E temp_file_path w2 of
                            (Some e, w3) \<Rightarrow> (Inl e, self2, w3)
                          | (None, w3) \<Rightarrow> (res, self2, w3))))))"

definition setup_marzban_node ::
  "'w remote_env \<Rightarrow> int \<Rightarrow> int \<Rightarrow> server_manager \<times> 'w \<Rightarrow> pydict \<times> server_manager \<times> 'w" where
  "setup_marzban_node E service_port api_port sw =
     (case (if sm_connection (fst sw) = None then connect E sw else (True, sw)) of
        (False, sw0) \<Rightarrow> (failure ''Failed to connect to server'', sw0)
      | (True, sw0) \<Rightarrow>
          (case setup_body E service_port api_port sw0 of
             (Inl e, self1, w1) \<Rightarrow> (failure (''Setup error: '' @ snd e), conn_close self1, w1)
           | (Inr res, self1, w1) \<Rightarrow> (res, conn_close self1, w1)))"

text \<open>
  Two concrete worlds. In the first the session opens, the certificate is set, and the
  \<open>k\<close>-th command executed (counting the connection test as 0) ends with a non-zero exit
  status and \<^verbatim>\<open>boom\<close> on its standard error. In the second the session opens and the
  transport fails on every command.
\<close>

definition demo_env :: "nat \<Rightarrow> nat remote_env" where
  "demo_env k =
     \<lparr>ssh_open = (\<lambda>h p w. (None, w)),
      ssh_exec = (\<lambda>cmd w. (Inr \<lparr>failed = (w = k), stderr = ''boom'',
                                   exit_report = '' Exit code: 1''\<rparr>, Suc w)),
      getenv = (\<lambda>name w. if name = ''MARZBAN_NODE_CERT'' then Some ''CERT'' else None),
      tmp_write = (\<lambda>s w. (Inr ''/tmp/tmpfile.sh'', w)),
      unlink = (\<lambda>p w. (None, w))\<rparr>"

definition broken_shell_env :: "unit remote_env" where
  "broken_shell_env =
     \<lparr>ssh_open = (\<lambda>h p w. (None, w)),
      ssh_exec = (\<lambda>cmd w. (Inl (OtherError, ''Encountered a bad command exit code!''), w)),
      getenv = (\<lambda>name w. Some ''CERT''),
      tmp_write = (\<lambda>s w. (Inr ''/tmp/tmpfile.sh'', w)),
      unlink = (\<lambda>p w. (None, w))\<rparr>"


section \<open>The control-plane client (marzban_node_api.py, \<^verbatim>\<open>NodeSetup\<close>)\<close>








datatype call_site = AuthCall | OpCall | GeoCall


















subsection \<open>Reading the log of exchanges\<close>
















section \<open>Properties of the text functions\<close>

lemma split_on_nonempty: "split_on c s \<noteq> []"
  by (induction s) (auto split: list.splits)

lemma split_on_append: "split_on c (a @ c # b) = split_on c a @ split_on c b"
proof (induction a)
  case Nil
  show ?case by simp
next
  case (Cons x a)
  obtain l ls where e: "split_on c a = l # ls"
    using split_on_nonempty [of c a] by (cases "split_on c a") auto
  show ?case using Cons e by simp
qed

lemma split_on_no_sep: "c \<notin> set s \<Longrightarrow> split_on c s = [s]"
  by (induction s) auto

lemma split_lines_unlines: "split_lines (unlines ls) = concat (map split_lines ls) @ [[]]"
proof (induction ls)
  case Nil
  show ?case by (simp add: split_lines_def unlines_def)
next
  case (Cons l ls)
  have "unlines (l # ls) = l @ nl # unlines ls" by (simp add: unlines_def)
  then show ?case using Cons by (simp add: split_lines_def split_on_append)
qed

lemma unlines_split_lines: "unlines (split_lines s) = s @ [nl]"
proof (induction s)
  case Nil
  show ?case by (simp add: split_lines_def unlines_def)
next
  case (Cons x s)
  obtain l ls where e: "split_on nl s = l # ls"
    using split_on_nonempty [of nl s] by (cases "split_on nl s") auto
  show ?case using Cons e by (auto simp: split_lines_def unlines_def)
qed

lemma digit_char_not_nl: "n < 10 \<Longrightarrow> digit_char n \<noteq> nl"
proof -
  assume "n < 10"
  then have "n \<in> {0,1,2,3,4,5,6,7,8,9}" by auto
  then show ?thesis by (auto simp: digit_char_def nl_def)
qed

lemma str_nat_no_nl: "nl \<notin> set (str_nat n)"
proof (induction n rule: str_nat.induct)
  case (1 n)
  show ?case
  proof (cases "n < 10")
    case True
    then show ?thesis using digit_char_not_nl [of n] by (subst str_nat.simps) auto
  next
    case False
    then show ?thesis using 1 digit_char_not_nl [of "n mod 10"] by (subst str_nat.simps) auto
  qed
qed

lemma str_int_no_nl: "nl \<notin> set (str_int i)"
proof -
  have "CHR ''-'' \<noteq> nl" by (simp add: nl_def)
  then show ?thesis using str_nat_no_nl by (auto simp: str_int_def)
qed

lemma no_nl_head: "\<forall>l \<in> set script_head. nl \<notin> set l"
  by (simp add: script_head_def nl_def)

lemma no_nl_mid: "\<forall>l \<in> set script_mid. nl \<notin> set l"
  by (simp add: script_mid_def nl_def sq_def)

lemma no_nl_tail: "\<forall>l \<in> set script_tail. nl \<notin> set l"
  by (simp add: script_tail_def nl_def)

lemma no_nl_cert_opener: "nl \<notin> set cert_opener"
  by (simp add: cert_opener_def nl_def sq_def)

lemma concat_split_lines_plain:
  "\<forall>l \<in> set ls. nl \<notin> set l \<Longrightarrow> concat (map split_lines ls) = ls"
  by (induction ls) (auto simp: split_lines_def split_on_no_sep)

lemma split_lines_script:
  "split_lines (generate_setup_script c s a) =
     script_head @ [cert_opener] @ split_lines c @ script_mid
       @ port_lines s a @ script_tail @ [final_line s] @ [[]]"
proof -
  have p: "\<forall>l \<in> set (port_lines s a). nl \<notin> set l"
    using str_int_no_nl by (auto simp: port_lines_def nl_def)
  have f: "nl \<notin> set (final_line s)"
    using str_int_no_nl [of s] by (auto simp: final_line_def nl_def)
  have g: "generate_setup_script c s a =
      unlines (script_head @ [cert_opener, c] @ script_mid @ port_lines s a @ script_tail @ [final_line s])"
    by (simp add: generate_setup_script_def port_lines_def final_line_def)
  show ?thesis
    unfolding g split_lines_unlines
    using p f no_nl_cert_opener
    by (simp add: concat_split_lines_plain no_nl_head no_nl_mid no_nl_tail split_lines_def split_on_no_sep)
qed


section \<open>The setup script and its here-documents\<close>

lemma unlines_append: "unlines (xs @ ys) = unlines xs @ unlines ys"
  by (simp add: unlines_def)

lemma unlines_eq_Nil: "unlines ls = [] \<longleftrightarrow> ls = []"
  by (cases ls) (simp_all add: unlines_def)

lemma unlines_takeWhile_iff:
  "(unlines (takeWhile (\<lambda>l. l \<noteq> d) (ls @ d # rest)) = unlines ls) = (d \<notin> set ls)"
proof (cases "d \<in> set ls")
  case False
  then have "takeWhile (\<lambda>l. l \<noteq> d) (ls @ d # rest) = ls"
    by (subst takeWhile_append2) auto
  with False show ?thesis by simp
next
  case True
  then have t: "takeWhile (\<lambda>l. l \<noteq> d) (ls @ d # rest) = takeWhile (\<lambda>l. l \<noteq> d) ls"
    by (intro takeWhile_append1 [of d]) auto
  have n: "dropWhile (\<lambda>l. l \<noteq> d) ls \<noteq> []"
    using True by (simp add: dropWhile_eq_Nil_conv) 
  have "unlines ls = unlines (takeWhile (\<lambda>l. l \<noteq> d) ls) @ unlines (dropWhile (\<lambda>l. l \<noteq> d) ls)"
    by (simp add: unlines_append [symmetric])
  then have "unlines (takeWhile (\<lambda>l. l \<noteq> d) ls) \<noteq> unlines ls"
    using n by (simp add: unlines_eq_Nil)
  with t True show ?thesis by simp
qed

lemma script_lines_SCRIPTEOF:
  "(''SCRIPTEOF'' \<in> set (split_lines (generate_setup_script c s a)))
     = (''SCRIPTEOF'' \<in> set (split_lines c))"
proof -
  have 1: "''SCRIPTEOF'' \<notin> set script_head" by (simp add: script_head_def)
  have 2: "''SCRIPTEOF'' \<notin> set script_mid" by (simp add: script_mid_def)
  have 3: "''SCRIPTEOF'' \<notin> set script_tail" by (simp add: script_tail_def)
  have 4: "''SCRIPTEOF'' \<notin> set (port_lines s a)" by (simp add: port_lines_def)
  have 5: "''SCRIPTEOF'' \<noteq> final_line s" by (simp add: final_line_def)
  have 6: "''SCRIPTEOF'' \<noteq> cert_opener" by (simp add: cert_opener_def)
  show ?thesis using 1 2 3 4 5 6 by (simp add: split_lines_script)
qed

lemma remote_script_file_eq:
  "remote_script_file g =
     Some (unlines (takeWhile (\<lambda>l. l \<noteq> ''SCRIPTEOF'') (split_lines g @ ''SCRIPTEOF'' # [])))"
proof -
  have o: "nl \<notin> set (in_tmp upload_opener)"
    by (simp add: in_tmp_def upload_opener_def nl_def sq_def)
  have e: "nl \<notin> set ''SCRIPTEOF''" by (simp add: nl_def)
  have "in_tmp (upload_command g) = in_tmp upload_opener @ nl # (g @ nl # ''SCRIPTEOF'')"
    by (simp add: in_tmp_def upload_command_def)
  moreover have "split_on nl (in_tmp upload_opener) = [in_tmp upload_opener]"
    by (rule split_on_no_sep [OF o])
  moreover have "split_on nl ''SCRIPTEOF'' = [''SCRIPTEOF'']"
    by (rule split_on_no_sep [OF e])
  ultimately have l: "split_lines (in_tmp (upload_command g))
      = in_tmp upload_opener # split_lines g @ [''SCRIPTEOF'']"
    by (simp only: split_lines_def split_on_append append_Cons append_Nil)
  show ?thesis
    unfolding remote_script_file_def heredoc_file_def heredoc_lines_def l by simp
qed

lemma upload_roundtrip:
  "(remote_script_file (generate_setup_script c s a) = Some (generate_setup_script c s a @ [nl]))
     = (''SCRIPTEOF'' \<notin> set (split_lines c))"
proof -
  let ?g = "generate_setup_script c s a"
  have "?g @ [nl] = unlines (split_lines ?g)" by (simp add: unlines_split_lines)
  then show ?thesis
    by (simp only: remote_script_file_eq option.inject unlines_takeWhile_iff script_lines_SCRIPTEOF)
qed

lemma find_cert_opener:
  "dropWhile (\<lambda>l. l \<noteq> cert_opener) (script_head @ cert_opener # rest) = cert_opener # rest"
  by (simp add: script_head_def cert_opener_def)

lemma remote_cert_file_eq:
  "remote_cert_file (generate_setup_script c s a @ [nl]) =
     Some (unlines (takeWhile (\<lambda>l. l \<noteq> ''CERTEOF'')
        (split_lines c @ ''CERTEOF'' #
           (tl script_mid @ port_lines s a @ script_tail @ [final_line s] @ [[]] @ [[]]))))"
proof -
  let ?g = "generate_setup_script c s a"
  let ?rest = "script_mid @ port_lines s a @ script_tail @ [final_line s] @ [[]] @ [[]]"
  have l: "split_lines (?g @ [nl]) = script_head @ cert_opener # split_lines c @ ?rest"
    using split_on_append [of nl ?g "[]"] split_lines_script [of c s a]
    by (simp add: split_lines_def)
  have m: "script_mid = ''CERTEOF'' # tl script_mid" by (simp add: script_mid_def)
  have r: "?rest = ''CERTEOF'' # (tl script_mid @ port_lines s a @ script_tail @ [final_line s] @ [[]] @ [[]])"
    by (subst m) simp
  show ?thesis
    unfolding remote_cert_file_def heredoc_file_def heredoc_lines_def l find_cert_opener r
    by simp
qed

lemma cert_roundtrip:
  "(remote_cert_file (generate_setup_script c s a @ [nl]) = Some (c @ [nl]))
     = (''CERTEOF'' \<notin> set (split_lines c))"
proof -
  have "c @ [nl] = unlines (split_lines c)" by (simp add: unlines_split_lines)
  then show ?thesis
    by (simp only: remote_cert_file_eq option.inject unlines_takeWhile_iff)
qed


lemma script_template:
  "\<exists>p1 p2 p3 p4 p5. \<forall>c s a.
     generate_setup_script c s a = p1 @ c @ p2 @ str_int s @ p3 @ str_int a @ p4 @ str_int s @ p5"
proof -
  let ?p1 = "unlines (script_head @ [cert_opener])"
  let ?p2 = "nl # unlines script_mid @ ''      SERVICE_PORT: ''"
  let ?p3 = "nl # ''      XRAY_API_PORT: ''"
  let ?p4 = "nl # unlines script_tail
      @ ''echo \"[SUCCESS] Node setup completed! Node should be available on port ''"
  let ?p5 = "''\"'' @ [nl]"
  have "\<forall>c s a. generate_setup_script c s a
      = ?p1 @ c @ ?p2 @ str_int s @ ?p3 @ str_int a @ ?p4 @ str_int s @ ?p5"
    by (simp add: generate_setup_script_def unlines_def port_lines_def final_line_def)
  then show ?thesis by blast
qed

lemma script_holds_certificate: "sublist c (generate_setup_script c s a)"
proof -
  obtain p1 p2 p3 p4 p5 where
    "\<forall>c s a. generate_setup_script c s a
       = p1 @ c @ p2 @ str_int s @ p3 @ str_int a @ p4 @ str_int s @ p5"
    using script_template by blast
  then have "generate_setup_script c s a
      = p1 @ c @ (p2 @ str_int s @ p3 @ str_int a @ p4 @ str_int s @ p5)"
    by simp
  then show ?thesis by (simp only: sublist_appendI)
qed

text \<open>
  C4: the script builder is a function of the certificate and the two ports only: equal
  arguments give equal text, the certificate stands unmodified inside the output, and the
  output is one fixed text with the certificate and the port numbers filled in.
\<close>

theorem script_builder_template:
  "(\<forall>c s a c' s' a'. c = c' \<and> s = s' \<and> a = a'
      \<longrightarrow> generate_setup_script c s a = generate_setup_script c' s' a')
   \<and> (\<forall>c s a. sublist c (generate_setup_script c s a))
   \<and> (\<exists>p1 p2 p3 p4 p5. \<forall>c s a.
        generate_setup_script c s a
          = p1 @ c @ p2 @ str_int s @ p3 @ str_int a @ p4 @ str_int s @ p5)"
  using script_template script_holds_certificate by simp

theorem script_builder_template_witness:
  "''CERT'' = ''CERT'' \<and> (8443::int) = 8443 \<and> (8880::int) = 8880
   \<and> generate_setup_script ''CERT'' 8443 8880 = generate_setup_script ''CERT'' 8443 8880
   \<and> sublist ''CERT'' (generate_setup_script ''CERT'' 8443 8880)"
  using script_builder_template by blast

text \<open>
  C2 (amended): the here-documents hand the script and the certificate over line for line
  exactly when no line of the certificate is the delimiter: the uploaded file is the script
  followed by one newline iff no certificate line is \<^verbatim>\<open>SCRIPTEOF\<close>, and the
  certificate file written by that script is the certificate followed by one newline iff
  no certificate line is \<^verbatim>\<open>CERTEOF\<close>.
\<close>

theorem heredoc_roundtrip:
  "((remote_script_file (generate_setup_script c s a) = Some (generate_setup_script c s a @ [nl]))
      = (''SCRIPTEOF'' \<notin> set (split_lines c)))
   \<and> ((remote_cert_file (generate_setup_script c s a @ [nl]) = Some (c @ [nl]))
      = (''CERTEOF'' \<notin> set (split_lines c)))
   \<and> (''SCRIPTEOF'' \<notin> set (split_lines c) \<and> ''CERTEOF'' \<notin> set (split_lines c)
      \<longrightarrow> installed_certificate c s a = Some (c @ [nl]))"
  using upload_roundtrip [of c s a] cert_roundtrip [of c s a]
  by (auto simp: installed_certificate_def)

theorem heredoc_roundtrip_witness:
  "''SCRIPTEOF'' \<notin> set (split_lines (''A'' @ [nl] @ ''B''))
   \<and> ''CERTEOF'' \<notin> set (split_lines (''A'' @ [nl] @ ''B''))
   \<and> installed_certificate (''A'' @ [nl] @ ''B'') 8443 8880 = Some (''A'' @ [nl] @ ''B'' @ [nl])"
proof -
  have l: "split_lines (''A'' @ [nl] @ ''B'') = [''A'', ''B'']"
    by (simp add: split_lines_def nl_def)
  show ?thesis
    using heredoc_roundtrip [of "''A'' @ [nl] @ ''B''" 8443 8880] unfolding l by simp
qed

text \<open>
  C2 as stated fails: a certificate with a line \<^verbatim>\<open>CERTEOF\<close> is cut at that line.
\<close>

theorem heredoc_roundtrip_counterexample:
  "installed_certificate cert_with_delimiter 8443 8880 = Some (''A'' @ [nl])
   \<and> installed_certificate cert_with_delimiter 8443 8880 \<noteq> Some cert_with_delimiter"
proof -
  have l: "split_lines cert_with_delimiter = [''A'', ''CERTEOF'', ''B'']"
    by (simp add: cert_with_delimiter_def split_lines_def nl_def)
  have u: "remote_script_file (generate_setup_script cert_with_delimiter 8443 8880)
      = Some (generate_setup_script cert_with_delimiter 8443 8880 @ [nl])"
    by (simp add: upload_roundtrip l)
  have c: "remote_cert_file (generate_setup_script cert_with_delimiter 8443 8880 @ [nl])
      = Some (''A'' @ [nl])"
    unfolding remote_cert_file_eq l by (simp add: unlines_def)
  show ?thesis
    by (simp add: installed_certificate_def u c) (simp add: cert_with_delimiter_def)
qed

section \<open>The node provisioner\<close>

lemma conn_run_never_failed: "conn_run E cmd sw = (Inr r, sw') \<Longrightarrow> \<not> failed r"
  by (auto simp: conn_run_def raise_on_failure_def
      split: prod.splits option.splits if_splits sum.splits)

lemma run_steps_result:
  assumes "run_steps E sc sp ap sw = (Inr d, sw')"
  shows "d = success (sm_host (fst sw')) sp ap"
proof -
  have nf: "\<And>cmd s r s'. conn_run E cmd s = (Inr r, s') \<Longrightarrow> \<not> failed r"
    by (rule conn_run_never_failed)
  show ?thesis
    using assms unfolding run_steps_def
    by (auto split: prod.splits sum.splits if_splits dest: nf)
qed

lemma setup_result_forms:
  "fst (setup_marzban_node E sp ap sw) = failure ''Failed to connect to server''
   \<or> fst (setup_marzban_node E sp ap sw) = failure ''Certificate not found in environment''
   \<or> (\<exists>m. fst (setup_marzban_node E sp ap sw) = failure (''Setup error: '' @ m))
   \<or> (\<exists>h. fst (setup_marzban_node E sp ap sw) = success h sp ap)"
proof -
  have b: "\<And>s d s'. setup_body E sp ap s = (Inr d, s')
      \<Longrightarrow> d = failure ''Certificate not found in environment'' \<or> (\<exists>h. d = success h sp ap)"
    unfolding setup_body_def
    by (auto split: prod.splits option.splits if_splits sum.splits dest: run_steps_result)
  show ?thesis
    unfolding setup_marzban_node_def
    by (auto split: prod.splits sum.splits bool.splits dest: b)
qed

lemma setup_session_refused:
  "sm_connection self = None \<Longrightarrow> ssh_open E (sm_host self) (sm_password self) w = (Some e, w')
   \<Longrightarrow> setup_marzban_node E sp ap (self, w)
       = (failure ''Failed to connect to server'',
          self\<lparr>sm_connection := Some \<lparr>is_connected = False\<rparr>\<rparr>, w')"
  by (simp add: setup_marzban_node_def connect_def conn_run_def)

lemma setup_no_certificate:
  "sm_connection self = None \<Longrightarrow> connect E (self, w) = (True, self1, w1)
   \<Longrightarrow> getenv E ''MARZBAN_NODE_CERT'' w1 = None \<or> getenv E ''MARZBAN_NODE_CERT'' w1 = Some []
   \<Longrightarrow> fst (setup_marzban_node E sp ap (self, w)) = failure ''Certificate not found in environment''"
  by (auto simp: setup_marzban_node_def setup_body_def)

text \<open>
  The three remote steps test \<^verbatim>\<open>result.failed\<close>, but a command that fails never returns a
  result (lemma \<open>conn_run_never_failed\<close>), so the labelled failures are never produced
  (lemmas \<open>run_steps_result\<close> and \<open>setup_result_forms\<close>).

  C3: the failure of opening the session and the missing certificate are reported as the
  claim says (lemmas \<open>setup_session_refused\<close> and \<open>setup_no_certificate\<close>), and so is success;
  but a remote step that fails is not reported with its own label and the remote standard
  error. On a server where the upload, the \<^verbatim>\<open>chmod\<close> or the execution of the script ends
  with a non-zero exit status and \<^verbatim>\<open>boom\<close> on its standard error, the result is in all
  three cases the same \<^verbatim>\<open>Setup error:\<close> followed by the text of the exception, and not,
  for the \<^verbatim>\<open>chmod\<close>, \<^verbatim>\<open>Failed to set permissions: boom\<close>.
\<close>

theorem setup_step_failures_share_one_error:
  "fst (setup_marzban_node (demo_env 1) 8443 8880 (ServerManager_init ''203.0.113.5'' ''pw'', 0))
     = failure ''Setup error: Encountered a bad command exit code! Exit code: 1''
   \<and> fst (setup_marzban_node (demo_env 2) 8443 8880 (ServerManager_init ''203.0.113.5'' ''pw'', 0))
     = failure ''Setup error: Encountered a bad command exit code! Exit code: 1''
   \<and> fst (setup_marzban_node (demo_env 3) 8443 8880 (ServerManager_init ''203.0.113.5'' ''pw'', 0))
     = failure ''Setup error: Encountered a bad command exit code! Exit code: 1''
   \<and> fst (setup_marzban_node (demo_env 2) 8443 8880 (ServerManager_init ''203.0.113.5'' ''pw'', 0))
     \<noteq> failure ''Failed to set permissions: boom''
   \<and> fst (setup_marzban_node (demo_env 9) 8443 8880 (ServerManager_init ''203.0.113.5'' ''pw'', 0))
     = success ''203.0.113.5'' 8443 8880"
  by (simp add: setup_marzban_node_def setup_body_def run_steps_def connect_def conn_run_def
        raise_on_failure_def unexpected_exit_def demo_env_def ServerManager_init_def
        conn_close_def failure_def)

subsection \<open>Closing the session\<close>

lemma session_open_conn_close: "\<not> session_open (conn_close s)"
  by (cases "sm_connection s") (simp_all add: session_open_def conn_close_def)

lemma setup_closes_session:
  "sm_connection self \<noteq> None \<or> fst (connect E (self, w))
   \<Longrightarrow> \<not> session_open (fst (snd (setup_marzban_node E sp ap (self, w))))"
  by (cases "connect E (self, w)")
     (auto simp: setup_marzban_node_def session_open_conn_close split: prod.splits sum.splits)

text \<open>
  C8: the session is closed on every path through the \<^verbatim>\<open>try\<close> block (lemma
  \<open>setup_closes_session\<close>), but the return after a failed \<^verbatim>\<open>connect\<close> comes before the
  \<^verbatim>\<open>try\<close>: when the session was opened and the connection test then fails, the call
  returns with the session still open.
\<close>

theorem setup_connect_test_failure_leaks_session:
  "fst (setup_marzban_node broken_shell_env 8443 8880 (ServerManager_init ''203.0.113.5'' ''pw'', ()))
     = failure ''Failed to connect to server''
   \<and> session_open
        (fst (snd (setup_marzban_node broken_shell_env 8443 8880
                     (ServerManager_init ''203.0.113.5'' ''pw'', ()))))"
  by (simp add: setup_marzban_node_def connect_def conn_run_def broken_shell_env_def
        ServerManager_init_def session_open_def raise_on_failure_def)

section \<open>The control-plane client\<close>




subsection \<open>What a finished call has exchanged\<close>






subsection \<open>A call that is always answered 401\<close>



subsection \<open>Running the calls\<close>









subsection \<open>Retrying after a rejection\<close>




subsection \<open>The token\<close>



end
